theory Spec2Isabelle
  imports Complex_Main "HOL-Library.Word" "HOL-Library.AList" "HOL-Library.State_Monad"
begin

section \<open>Python values and the built-ins the column types call\<close>

text \<open>
  The module \<^verbatim>\<open>geoalchemy2/types.py\<close> is dynamically typed: the constructor of a
  column type receives arbitrary Python objects. The values a schema author writes
  for the constructor arguments are modelled by \<open>pyval\<close>. A finite float is the
  rational number it denotes (every finite IEEE double is one); the two infinities
  and not-a-number are separate values. Text is ASCII text, one \<open>char\<close> per character.
\<close>

datatype py_error = AttributeError | TypeError | ValueError | OverflowError

datatype pyfloat = Finite rat | PosInf | NegInf | NaN

datatype pyval = PNone | PBool bool | PInt int | PFloat pyfloat | PStr string

type_synonym bytes = "8 word list"

subsection \<open>\<^verbatim>\<open>str.upper()\<close>\<close>

definition upper_char :: "char \<Rightarrow> char" where
  "upper_char c =
     (if 97 \<le> (of_char c :: nat) \<and> (of_char c :: nat) \<le> 122
      then char_of ((of_char c :: nat) - 32) else c)"

definition str_upper :: "string \<Rightarrow> string" where
  "str_upper s = map upper_char s"

text \<open>
  \<^verbatim>\<open>geometry_type.upper()\<close>: only a string has the method; on the other values
  of \<open>pyval\<close> the attribute lookup raises \<^verbatim>\<open>AttributeError\<close>.
\<close>

fun upper :: "pyval \<Rightarrow> py_error + string" where
  "upper (PStr s) = Inr (str_upper s)"
| "upper PNone = Inl AttributeError"
| "upper (PBool b) = Inl AttributeError"
| "upper (PInt i) = Inl AttributeError"
| "upper (PFloat f) = Inl AttributeError"

subsection \<open>\<^verbatim>\<open>int(x)\<close>\<close>

definition is_space :: "char \<Rightarrow> bool" where
  "is_space c = ((9 \<le> (of_char c :: nat) \<and> (of_char c :: nat) \<le> 13) \<or> (of_char c :: nat) = 32)"

definition is_digit :: "char \<Rightarrow> bool" where
  "is_digit c = (48 \<le> (of_char c :: nat) \<and> (of_char c :: nat) \<le> 57)"

definition digit_val :: "char \<Rightarrow> nat" where
  "digit_val c = (of_char c :: nat) - 48"

text \<open>
  \<^verbatim>\<open>int\<close> of a string: the text is stripped of surrounding white space, may start
  with one sign, and is then a decimal literal as Python 3 reads it. The digits are
  read left to right. The flag says whether the previous character was a digit: an
  underscore is accepted only between two digits, and the text must end in a digit.
\<close>

fun scan_digits :: "bool \<Rightarrow> nat \<Rightarrow> string \<Rightarrow> nat option" where
  "scan_digits d acc [] = (if d then Some acc else None)"
| "scan_digits d acc (c # cs) =
     (if is_digit c then scan_digits True (10 * acc + digit_val c) cs
      else if c = CHR ''_'' \<and> d then scan_digits False acc cs
      else None)"

definition strip :: "string \<Rightarrow> string" where
  "strip s = rev (dropWhile is_space (rev (dropWhile is_space s)))"

fun split_sign :: "string \<Rightarrow> bool \<times> string" where
  "split_sign [] = (False, [])"
| "split_sign (c # cs) =
     (if c = CHR ''-'' then (True, cs)
      else if c = CHR ''+'' then (False, cs)
      else (False, c # cs))"

definition int_of_str :: "string \<Rightarrow> py_error + int" where
  "int_of_str s =
     (case split_sign (strip s) of
        (neg, body) \<Rightarrow>
          (case scan_digits False 0 body of
             None \<Rightarrow> Inl ValueError
           | Some n \<Rightarrow> Inr (if neg then - int n else int n)))"

text \<open>A finite float is truncated toward zero.\<close>

definition trunc :: "rat \<Rightarrow> int" where
  "trunc q = (if 0 \<le> q then \<lfloor>q\<rfloor> else \<lceil>q\<rceil>)"

fun int_of_float :: "pyfloat \<Rightarrow> py_error + int" where
  "int_of_float (Finite q) = Inr (trunc q)"
| "int_of_float PosInf = Inl OverflowError"
| "int_of_float NegInf = Inl OverflowError"
| "int_of_float NaN = Inl ValueError"

fun py_int :: "pyval \<Rightarrow> py_error + int" where
  "py_int (PInt i) = Inr i"
| "py_int (PBool b) = Inr (if b then 1 else 0)"
| "py_int (PFloat f) = int_of_float f"
| "py_int (PStr s) = int_of_str s"
| "py_int PNone = Inl TypeError"

subsection \<open>The \<^verbatim>\<open>%\<close> formatting of \<^verbatim>\<open>get_col_spec\<close>\<close>

definition digit_char :: "nat \<Rightarrow> char" where
  "digit_char n = char_of (48 + n)"

function str_of_nat :: "nat \<Rightarrow> string" where
  "str_of_nat n =
     (if n < 10 then [digit_char n] else str_of_nat (n div 10) @ [digit_char (n mod 10)])"
  by pat_completeness auto
termination
  by (relation "measure (\<lambda>n. n)") auto

declare str_of_nat.simps [simp del]

text \<open>\<^verbatim>\<open>'%d' % i\<close> for an integer \<open>i\<close>.\<close>

definition fmt_d :: "int \<Rightarrow> string" where
  "fmt_d i = (if i < 0 then CHR ''-'' # str_of_nat (nat (- i)) else str_of_nat (nat i))"

text \<open>\<^verbatim>\<open>'%s' % x\<close> for a class attribute that is a string or \<^verbatim>\<open>None\<close>.\<close>

fun fmt_s :: "string option \<Rightarrow> string" where
  "fmt_s None = ''None''"
| "fmt_s (Some s) = s"

section \<open>The geometry and geography column types\<close>

text \<open>
  \<^verbatim>\<open>_GISType\<close> and its two subclasses. The class of an object is the field \<open>cls\<close>;
  the class attributes \<^verbatim>\<open>name\<close> and \<^verbatim>\<open>from_text\<close> are functions of the class,
  \<^verbatim>\<open>None\<close> in the base class and overridden in each subclass.
\<close>

datatype gis_class = GISType | Geometry | Geography

fun name :: "gis_class \<Rightarrow> string option" where
  "name GISType = None"
| "name Geometry = Some ''geometry''"
| "name Geography = Some ''geography''"

fun from_text :: "gis_class \<Rightarrow> string option" where
  "from_text GISType = None"
| "from_text Geometry = Some ''ST_GeomFromText''"
| "from_text Geography = Some ''ST_GeogFromText''"

record gis_type =
  cls :: gis_class
  geometry_type :: string
  srid :: int
  dimension :: pyval
  spatial_index :: pyval
  management :: pyval

text \<open>
  \<^verbatim>\<open>__init__\<close>: the statements run in the order of the source, so a failing
  \<^verbatim>\<open>upper()\<close> is raised before \<^verbatim>\<open>int(srid)\<close> is tried. The call of the class
  yields the object only when \<^verbatim>\<open>__init__\<close> returns; an exception leaves the caller
  with no object at all.
\<close>

definition GISType_init ::
  "gis_class \<Rightarrow> pyval \<Rightarrow> pyval \<Rightarrow> pyval \<Rightarrow> pyval \<Rightarrow> pyval \<Rightarrow> py_error + gis_type" where
  "GISType_init c geometry_type_arg srid_arg dimension_arg spatial_index_arg management_arg =
     (case upper geometry_type_arg of
        Inl e \<Rightarrow> Inl e
      | Inr g \<Rightarrow>
          (case py_int srid_arg of
             Inl e \<Rightarrow> Inl e
           | Inr n \<Rightarrow>
               Inr \<lparr>cls = c, geometry_type = g, srid = n, dimension = dimension_arg,
                    spatial_index = spatial_index_arg, management = management_arg\<rparr>))"

text \<open>
  A call with keyword arguments: an argument left out (\<open>None\<close> here) takes the default
  of the signature, \<^verbatim>\<open>geometry_type='GEOMETRY', srid=-1, dimension=2,
  spatial_index=True, management=False\<close>.
\<close>

definition GISType_call ::
  "gis_class \<Rightarrow> pyval option \<Rightarrow> pyval option \<Rightarrow> pyval option \<Rightarrow> pyval option \<Rightarrow> pyval option
     \<Rightarrow> py_error + gis_type" where
  "GISType_call c g s d si m =
     GISType_init c
       (case g of None \<Rightarrow> PStr ''GEOMETRY'' | Some v \<Rightarrow> v)
       (case s of None \<Rightarrow> PInt (- 1) | Some v \<Rightarrow> v)
       (case d of None \<Rightarrow> PInt 2 | Some v \<Rightarrow> v)
       (case si of None \<Rightarrow> PBool True | Some v \<Rightarrow> v)
       (case m of None \<Rightarrow> PBool False | Some v \<Rightarrow> v)"

section \<open>SQL expressions\<close>

text \<open>
  The hooks build SQL expression elements through SQLAlchemy's \<^verbatim>\<open>func\<close> generator:
  \<^verbatim>\<open>func.f(*clauses, type_=t)\<close> is the call of the SQL function \<open>f\<close> on the argument
  clauses, with result type \<open>t\<close>. An element is a column reference, a bind parameter
  or a function call, whose result type may be a column type of this module.
\<close>

datatype expr =
  Column string
| BindParameter string
| Function string "expr list" "gis_type option"

definition func :: "string \<Rightarrow> expr list \<Rightarrow> gis_type \<Rightarrow> expr" where
  "func f clauses type_arg = Function f clauses (Some type_arg)"

text \<open>
  \<^verbatim>\<open>getattr(func, attr)\<close>: the attribute name has to be a string, \<^verbatim>\<open>None\<close> raises
  \<^verbatim>\<open>TypeError\<close>. The names are those of \<open>from_text\<close>.
\<close>

fun getattr_func :: "string option \<Rightarrow> py_error + (expr list \<Rightarrow> gis_type \<Rightarrow> expr)" where
  "getattr_func None = Inl TypeError"
| "getattr_func (Some f) = Inr (func f)"

section \<open>The hooks of \<^verbatim>\<open>_GISType\<close>\<close>

definition get_col_spec :: "gis_type \<Rightarrow> string" where
  "get_col_spec self =
     fmt_s (name (cls self)) @ ''('' @ geometry_type self @ '','' @ fmt_d (srid self) @ '')''"

definition column_expression :: "gis_type \<Rightarrow> expr \<Rightarrow> expr" where
  "column_expression self col = func ''ST_AsBinary'' [col] self"

definition bind_expression :: "gis_type \<Rightarrow> expr \<Rightarrow> py_error + expr" where
  "bind_expression self bindvalue =
     (case getattr_func (from_text (cls self)) of
        Inl e \<Rightarrow> Inl e
      | Inr f \<Rightarrow> Inr (f [bindvalue] self))"

text \<open>
  Modelled from the spec: the classes \<^verbatim>\<open>WKBElement\<close> and \<^verbatim>\<open>RasterElement\<close> of
  \<^verbatim>\<open>geoalchemy2/elements.py\<close>, which is not among the source files. They hold the raw
  encoded bytes and, for \<^verbatim>\<open>WKBElement\<close>, the SRID supplied by the owning column type.
\<close>

record WKBElement =
  wkb_data :: bytes
  wkb_srid :: int

record RasterElement =
  raster_data :: bytes

text \<open>
  The closure \<^verbatim>\<open>process\<close> of \<^verbatim>\<open>result_processor\<close>. A fetched value is \<^verbatim>\<open>None\<close>
  (SQL NULL) or the bytes the driver returned; the function ends without a
  \<^verbatim>\<open>return\<close> for \<^verbatim>\<open>None\<close>, which yields \<^verbatim>\<open>None\<close>.
\<close>

definition process :: "gis_type \<Rightarrow> bytes option \<Rightarrow> WKBElement option" where
  "process self val =
     (case val of
        Some v \<Rightarrow> Some \<lparr>wkb_data = v, wkb_srid = srid self\<rparr>
      | None \<Rightarrow> None)"

definition result_processor :: "gis_type \<Rightarrow> 'd \<Rightarrow> 'c \<Rightarrow> (bytes option \<Rightarrow> WKBElement option)" where
  "result_processor self dialect coltype = process self"

section \<open>The raster column type\<close>

record raster_type =
  raster_spatial_index :: pyval

definition Raster_init :: "pyval \<Rightarrow> raster_type" where
  "Raster_init spatial_index_arg = \<lparr>raster_spatial_index = spatial_index_arg\<rparr>"

definition Raster_call :: "pyval option \<Rightarrow> raster_type" where
  "Raster_call si = Raster_init (case si of None \<Rightarrow> PBool True | Some v \<Rightarrow> v)"

definition Raster_get_col_spec :: "raster_type \<Rightarrow> string" where
  "Raster_get_col_spec self = ''raster''"

definition Raster_process :: "raster_type \<Rightarrow> bytes option \<Rightarrow> RasterElement option" where
  "Raster_process self val =
     (case val of
        Some v \<Rightarrow> Some \<lparr>raster_data = v\<rparr>
      | None \<Rightarrow> None)"

definition Raster_result_processor ::
  "raster_type \<Rightarrow> 'd \<Rightarrow> 'c \<Rightarrow> (bytes option \<Rightarrow> RasterElement option)" where
  "Raster_result_processor self dialect coltype = Raster_process self"

section \<open>Which class defines which hook\<close>

text \<open>
  The methods each class body of the module defines, in the order of the source, and
  the classes of the module an attribute lookup goes through. \<^verbatim>\<open>UserDefinedType\<close>,
  the base of \<^verbatim>\<open>_GISType\<close> and of \<^verbatim>\<open>Raster\<close>, belongs to the framework: a lookup
  that finds nothing here ends there.
\<close>

datatype pyclass = GIS gis_class | Raster

datatype hook =
  M_init | M_get_col_spec | M_column_expression | M_result_processor | M_bind_expression

fun class_body :: "pyclass \<Rightarrow> hook list" where
  "class_body (GIS GISType) =
     [M_init, M_get_col_spec, M_column_expression, M_result_processor, M_bind_expression]"
| "class_body (GIS Geometry) = []"
| "class_body (GIS Geography) = []"
| "class_body Raster = [M_init, M_get_col_spec, M_result_processor]"

fun mro :: "pyclass \<Rightarrow> pyclass list" where
  "mro (GIS GISType) = [GIS GISType]"
| "mro (GIS Geometry) = [GIS Geometry, GIS GISType]"
| "mro (GIS Geography) = [GIS Geography, GIS GISType]"
| "mro Raster = [Raster]"

definition defining_class :: "pyclass \<Rightarrow> hook \<Rightarrow> pyclass option" where
  "defining_class c m = find (\<lambda>k. m \<in> set (class_body k)) (mro c)"

section \<open>Registration with the reflection subsystem\<close>

text \<open>
  \<^verbatim>\<open>ischema_names\<close> is a dictionary from type names to classes. A dictionary keeps
  its entries in insertion order with one entry per key: it is a list of pairs with
  distinct keys, and \<^verbatim>\<open>d[k] = v\<close> replaces the value of an existing key in place or
  appends a new entry.
\<close>

type_synonym 'c registry = "(string \<times> 'c) list"

definition setitem :: "'c registry \<Rightarrow> string \<Rightarrow> 'c \<Rightarrow> 'c registry" where
  "setitem d k v = AList.update k v d"

definition getitem :: "'c registry \<Rightarrow> string \<Rightarrow> 'c option" where
  "getitem d k = map_of d k"

text \<open>
  The three assignments at the end of the module. The classes \<^verbatim>\<open>Geometry\<close>,
  \<^verbatim>\<open>Geography\<close> and \<^verbatim>\<open>Raster\<close> are the class objects of that execution of the
  module body.
\<close>

definition register_types :: "'c \<Rightarrow> 'c \<Rightarrow> 'c \<Rightarrow> 'c registry \<Rightarrow> 'c registry" where
  "register_types geometry_cls geography_cls raster_cls ischema_names =
     setitem (setitem (setitem ischema_names ''geometry'' geometry_cls)
                ''geography'' geography_cls)
       ''raster'' raster_cls"

section \<open>Methods as state transformers on \<^verbatim>\<open>self\<close>\<close>

text \<open>
  A method body may read and assign the attributes of \<^verbatim>\<open>self\<close>. Here every method
  is a computation in the state monad over the attribute record of \<^verbatim>\<open>self\<close>, put
  together statement by statement from two primitives: \<open>read_attr\<close> for an attribute
  read \<^verbatim>\<open>self.a\<close> and \<open>assign\<close> for an assignment \<^verbatim>\<open>self.a = v\<close>. Passing
  \<^verbatim>\<open>self\<close> itself (\<^verbatim>\<open>type_=self\<close>) reads the whole object. What a call leaves of
  the object is the state the computation ends in.
\<close>

definition read_attr :: "('s \<Rightarrow> 'a) \<Rightarrow> ('s, 'a) state" where
  "read_attr a = State_Monad.bind State_Monad.get (\<lambda>self. State_Monad.return (a self))"

definition assign :: "('s \<Rightarrow> 's) \<Rightarrow> ('s, unit) state" where
  "assign upd = State_Monad.update upd"

text \<open>
  \<^verbatim>\<open>__init__\<close>, the one method of \<^verbatim>\<open>_GISType\<close> with assignments. When
  \<^verbatim>\<open>int(srid)\<close> raises, the assignment of \<^verbatim>\<open>geometry_type\<close> has already
  happened.
\<close>

definition GISType_init_m ::
  "pyval \<Rightarrow> pyval \<Rightarrow> pyval \<Rightarrow> pyval \<Rightarrow> pyval \<Rightarrow> (gis_type, py_error + unit) state" where
  "GISType_init_m geometry_type_arg srid_arg dimension_arg spatial_index_arg management_arg =
     (case upper geometry_type_arg of
        Inl e \<Rightarrow> State_Monad.return (Inl e)
      | Inr g \<Rightarrow> do {
          assign (\<lambda>self. self\<lparr>geometry_type := g\<rparr>);
          (case py_int srid_arg of
             Inl e \<Rightarrow> State_Monad.return (Inl e)
           | Inr n \<Rightarrow> do {
               assign (\<lambda>self. self\<lparr>srid := n\<rparr>);
               assign (\<lambda>self. self\<lparr>dimension := dimension_arg\<rparr>);
               assign (\<lambda>self. self\<lparr>spatial_index := spatial_index_arg\<rparr>);
               assign (\<lambda>self. self\<lparr>management := management_arg\<rparr>);
               State_Monad.return (Inr ())
             })
        })"

definition get_col_spec_m :: "(gis_type, string) state" where
  "get_col_spec_m = do {
     n \<leftarrow> read_attr (\<lambda>self. name (cls self));
     g \<leftarrow> read_attr geometry_type;
     i \<leftarrow> read_attr srid;
     State_Monad.return (fmt_s n @ ''('' @ g @ '','' @ fmt_d i @ '')'')
   }"

definition column_expression_m :: "expr \<Rightarrow> (gis_type, expr) state" where
  "column_expression_m col = do {
     self \<leftarrow> State_Monad.get;
     State_Monad.return (func ''ST_AsBinary'' [col] self)
   }"

definition bind_expression_m :: "expr \<Rightarrow> (gis_type, py_error + expr) state" where
  "bind_expression_m bindvalue = do {
     ft \<leftarrow> read_attr (\<lambda>self. from_text (cls self));
     (case getattr_func ft of
        Inl e \<Rightarrow> State_Monad.return (Inl e)
      | Inr f \<Rightarrow> do {
          self \<leftarrow> State_Monad.get;
          State_Monad.return (Inr (f [bindvalue] self))
        })
   }"

text \<open>
  The closure \<^verbatim>\<open>process\<close> refers to \<^verbatim>\<open>self\<close> and reads \<^verbatim>\<open>self.srid\<close> when it
  is called: it is itself a computation on the object, and \<^verbatim>\<open>result_processor\<close>
  returns it.
\<close>

definition process_m :: "bytes option \<Rightarrow> (gis_type, WKBElement option) state" where
  "process_m val =
     (case val of
        Some v \<Rightarrow> do {
          i \<leftarrow> read_attr srid;
          State_Monad.return (Some \<lparr>wkb_data = v, wkb_srid = i\<rparr>)
        }
      | None \<Rightarrow> State_Monad.return None)"

definition result_processor_m ::
  "'d \<Rightarrow> 'c \<Rightarrow> (gis_type, bytes option \<Rightarrow> (gis_type, WKBElement option) state) state" where
  "result_processor_m dialect coltype = State_Monad.return process_m"

text \<open>The methods of \<^verbatim>\<open>Raster\<close>.\<close>

definition Raster_init_m :: "pyval \<Rightarrow> (raster_type, unit) state" where
  "Raster_init_m spatial_index_arg =
     assign (\<lambda>self. self\<lparr>raster_spatial_index := spatial_index_arg\<rparr>)"

definition Raster_get_col_spec_m :: "(raster_type, string) state" where
  "Raster_get_col_spec_m = State_Monad.return ''raster''"

definition Raster_process_m :: "bytes option \<Rightarrow> (raster_type, RasterElement option) state" where
  "Raster_process_m val =
     (case val of
        Some v \<Rightarrow> State_Monad.return (Some \<lparr>raster_data = v\<rparr>)
      | None \<Rightarrow> State_Monad.return None)"

definition Raster_result_processor_m ::
  "'d \<Rightarrow> 'c \<Rightarrow>
     (raster_type, bytes option \<Rightarrow> (raster_type, RasterElement option) state) state" where
  "Raster_result_processor_m dialect coltype = State_Monad.return Raster_process_m"

text \<open>
  A call of one of the hooks, and a sequence of such calls on the same object. The
  closure is called through \<^verbatim>\<open>result_processor\<close>, as the framework does.
\<close>

datatype gis_op =
  Op_get_col_spec
| Op_column_expression expr
| Op_bind_expression expr
| Op_result_processor
| Op_process "bytes option"

fun gis_exec :: "gis_op \<Rightarrow> (gis_type, unit) state" where
  "gis_exec Op_get_col_spec = do { r \<leftarrow> get_col_spec_m; State_Monad.return () }"
| "gis_exec (Op_column_expression col) =
     do { r \<leftarrow> column_expression_m col; State_Monad.return () }"
| "gis_exec (Op_bind_expression bindvalue) =
     do { r \<leftarrow> bind_expression_m bindvalue; State_Monad.return () }"
| "gis_exec Op_result_processor =
     do { p \<leftarrow> result_processor_m () (); State_Monad.return () }"
| "gis_exec (Op_process val) =
     do { p \<leftarrow> result_processor_m () (); r \<leftarrow> p val; State_Monad.return () }"

fun gis_run :: "gis_op list \<Rightarrow> (gis_type, unit) state" where
  "gis_run [] = State_Monad.return ()"
| "gis_run (op # ops) = do { u \<leftarrow> gis_exec op; gis_run ops }"

datatype raster_op =
  ROp_get_col_spec
| ROp_result_processor
| ROp_process "bytes option"

fun raster_exec :: "raster_op \<Rightarrow> (raster_type, unit) state" where
  "raster_exec ROp_get_col_spec = do { r \<leftarrow> Raster_get_col_spec_m; State_Monad.return () }"
| "raster_exec ROp_result_processor =
     do { p \<leftarrow> Raster_result_processor_m () (); State_Monad.return () }"
| "raster_exec (ROp_process val) =
     do { p \<leftarrow> Raster_result_processor_m () (); r \<leftarrow> p val; State_Monad.return () }"

fun raster_run :: "raster_op list \<Rightarrow> (raster_type, unit) state" where
  "raster_run [] = State_Monad.return ()"
| "raster_run (op # ops) = do { u \<leftarrow> raster_exec op; raster_run ops }"

section \<open>Predicates used to state the properties\<close>


section \<open>Facts about the built-ins\<close>

subsection \<open>Upper-casing\<close>





subsection \<open>The decimal text of an integer reads back as that integer\<close>

lemma digit_char_is_digit: "n < 10 \<Longrightarrow> is_digit (digit_char n)"
  by (simp add: is_digit_def digit_char_def)

lemma digit_val_digit_char: "n < 10 \<Longrightarrow> digit_val (digit_char n) = n"
  by (simp add: digit_val_def digit_char_def)

lemma scan_str_of_nat: "scan_digits d 0 (str_of_nat n @ ys) = scan_digits True n ys"
proof (induction n arbitrary: d ys rule: str_of_nat.induct)
  case (1 n)
  show ?case
  proof (cases "n < 10")
    case True
    then show ?thesis
      by (simp add: str_of_nat.simps [of n] digit_char_is_digit digit_val_digit_char)
  next
    case False
    have m: "n mod 10 < 10" by simp
    have "scan_digits d 0 (str_of_nat n @ ys)
          = scan_digits d 0 (str_of_nat (n div 10) @ (digit_char (n mod 10) # ys))"
      using False by (simp add: str_of_nat.simps [of n])
    also have "\<dots> = scan_digits True (n div 10) (digit_char (n mod 10) # ys)"
      using False by (rule "1.IH")
    also have "\<dots> = scan_digits True (10 * (n div 10) + n mod 10) ys"
      using m by (simp add: digit_char_is_digit digit_val_digit_char)
    finally show ?thesis by simp
  qed
qed

lemma str_of_nat_digits: "list_all is_digit (str_of_nat n)"
proof (induction n rule: str_of_nat.induct)
  case (1 n)
  show ?case
  proof (cases "n < 10")
    case True
    then show ?thesis by (simp add: str_of_nat.simps [of n] digit_char_is_digit)
  next
    case False
    then show ?thesis
      using "1.IH" by (simp add: str_of_nat.simps [of n] digit_char_is_digit)
  qed
qed

lemma str_of_nat_not_Nil: "str_of_nat n \<noteq> []"
  by (simp add: str_of_nat.simps [of n])

lemma digit_not_space: "is_digit c \<Longrightarrow> \<not> is_space c"
  by (auto simp: is_digit_def is_space_def)

lemma digit_not_sign: "is_digit c \<Longrightarrow> c \<noteq> CHR ''-'' \<and> c \<noteq> CHR ''+''"
  by (auto simp: is_digit_def)

lemma strip_no_space:
  assumes "s \<noteq> []" "\<not> is_space (hd s)" "\<not> is_space (last s)"
  shows "strip s = s"
proof -
  from assms have a: "dropWhile is_space s = s"
    by (cases s) simp_all
  from assms have "rev s \<noteq> []" "\<not> is_space (hd (rev s))"
    by (simp_all add: hd_rev)
  then have "dropWhile is_space (rev s) = rev s"
    by (cases "rev s") simp_all
  with a show ?thesis by (simp add: strip_def)
qed

lemma str_of_nat_hd: "is_digit (hd (str_of_nat n))"
  using str_of_nat_digits [of n] str_of_nat_not_Nil [of n]
  by (cases "str_of_nat n") simp_all

lemma str_of_nat_last: "is_digit (last (str_of_nat n))"
  using str_of_nat_digits [of n] str_of_nat_not_Nil [of n]
  by (simp add: list_all_iff)

lemma int_of_str_fmt_d: "int_of_str (fmt_d i) = Inr i"
proof (cases "i < 0")
  case True
  let ?s = "str_of_nat (nat (- i))"
  have minus: "\<not> is_space CHR ''-''"
    by (simp add: is_space_def)
  have "strip (CHR ''-'' # ?s) = CHR ''-'' # ?s"
    using str_of_nat_last [of "nat (- i)"] str_of_nat_not_Nil [of "nat (- i)"] minus
    by (intro strip_no_space) (simp_all add: digit_not_space)
  moreover have "scan_digits False 0 ?s = Some (nat (- i))"
    using scan_str_of_nat [of False "nat (- i)" "[]"] by simp
  ultimately show ?thesis
    using True by (simp add: int_of_str_def fmt_d_def)
next
  case False
  let ?s = "str_of_nat (nat i)"
  have s: "strip ?s = ?s"
    using str_of_nat_last [of "nat i"] str_of_nat_hd [of "nat i"] str_of_nat_not_Nil [of "nat i"]
    by (intro strip_no_space) (simp_all add: digit_not_space)
  have "split_sign ?s = (False, ?s)"
    using str_of_nat_hd [of "nat i"] str_of_nat_not_Nil [of "nat i"] digit_not_sign [of "hd ?s"]
    by (cases ?s) simp_all
  moreover have "scan_digits False 0 ?s = Some (nat i)"
    using scan_str_of_nat [of False "nat i" "[]"] by simp
  ultimately show ?thesis
    using False s by (simp add: int_of_str_def fmt_d_def)
qed

subsection \<open>Truncation is toward zero\<close>

lemma trunc_toward_zero:
  "\<bar>of_int (trunc q)\<bar> \<le> \<bar>q\<bar> \<and> \<bar>q\<bar> < \<bar>of_int (trunc q)\<bar> + 1 \<and> 0 \<le> of_int (trunc q) * q"
proof (cases "0 \<le> q")
  case True
  then have "0 \<le> \<lfloor>q\<rfloor>" by simp
  then have "(0::rat) \<le> of_int \<lfloor>q\<rfloor>" by simp
  moreover have "of_int \<lfloor>q\<rfloor> \<le> q" "q < of_int \<lfloor>q\<rfloor> + 1" by linarith+
  ultimately show ?thesis using True by (simp add: trunc_def)
next
  case False
  then have "\<lceil>q\<rceil> \<le> 0" by (simp add: ceiling_le_iff)
  then have c: "(of_int \<lceil>q\<rceil> :: rat) \<le> 0" by simp
  moreover have "q \<le> of_int \<lceil>q\<rceil>" "of_int \<lceil>q\<rceil> - 1 < q" by linarith+
  ultimately show ?thesis using False
    by (simp add: trunc_def mult_nonpos_nonpos)
qed

subsection \<open>Dictionary assignment\<close>

lemma update_present_commute:
  "k \<noteq> k' \<Longrightarrow> k \<in> fst ` set al \<Longrightarrow>
     AList.update k v (AList.update k' v' al) = AList.update k' v' (AList.update k v al)"
  by (induction al) auto

lemma setitem_last: "setitem (setitem d k v) k w = setitem d k w"
  by (simp add: setitem_def update_last)

lemma keys_setitem: "fst ` set (setitem d k v) = insert k (fst ` set d)"
  by (simp add: setitem_def dom_update)

lemma setitem_commute:
  "k \<noteq> k' \<Longrightarrow> k \<in> fst ` set d \<Longrightarrow>
     setitem (setitem d k' v') k v = setitem (setitem d k v) k' v'"
  unfolding setitem_def by (rule update_present_commute)

lemma filter_absent_key: "k \<notin> fst ` set d \<Longrightarrow> filter (\<lambda>e. fst e = k) d = []"
  by (induction d) auto

lemma count_key_setitem:
  "distinct (map fst d) \<Longrightarrow> length (filter (\<lambda>e. fst e = k) (setitem d k v)) = 1"
  by (induction d) (auto simp: setitem_def filter_absent_key)

lemma count_key_setitem_other:
  "k \<noteq> k' \<Longrightarrow>
     length (filter (\<lambda>e. fst e = k) (setitem d k' v)) = length (filter (\<lambda>e. fst e = k) d)"
  by (induction d) (auto simp: setitem_def)

lemma keys_setitem_cong:
  "map fst d = map fst d' \<Longrightarrow> map fst (setitem d k v) = map fst (setitem d' k v')"
  by (induction d arbitrary: d') (auto simp: setitem_def)

lemma distinct_setitem: "distinct (map fst d) \<Longrightarrow> distinct (map fst (setitem d k v))"
  by (simp add: setitem_def distinct_update)

lemma getitem_setitem: "getitem (setitem d k v) k' = (if k' = k then Some v else getitem d k')"
  by (simp add: getitem_def setitem_def update_conv')

text \<open>
  After a first registration the three keys are present, so a second one only
  replaces their values in place: the registry is the one a single registration
  with the second classes gives.
\<close>

lemma register_types_last:
  "register_types a2 b2 c2 (register_types a1 b1 c1 reg) = register_types a2 b2 c2 reg"
proof -
  let ?g = "''geometry''" and ?gg = "''geography''" and ?r = "''raster''"
  let ?X = "setitem reg ?g a1"
  let ?Y = "setitem ?X ?gg b1"
  have "register_types a2 b2 c2 (register_types a1 b1 c1 reg)
      = setitem (setitem (setitem (setitem ?Y ?r c1) ?g a2) ?gg b2) ?r c2"
    by (simp add: register_types_def)
  also have "setitem (setitem ?Y ?r c1) ?g a2 = setitem (setitem ?Y ?g a2) ?r c1"
    by (rule setitem_commute) (simp_all add: keys_setitem)
  also have "setitem (setitem (setitem ?Y ?g a2) ?r c1) ?gg b2
      = setitem (setitem (setitem ?Y ?g a2) ?gg b2) ?r c1"
    by (rule setitem_commute) (simp_all add: keys_setitem)
  also have "setitem (setitem (setitem (setitem ?Y ?g a2) ?gg b2) ?r c1) ?r c2
      = setitem (setitem (setitem ?Y ?g a2) ?gg b2) ?r c2"
    by (rule setitem_last)
  also have "setitem ?Y ?g a2 = setitem (setitem ?X ?g a2) ?gg b1"
    by (rule setitem_commute) (simp_all add: keys_setitem)
  also have "setitem ?X ?g a2 = setitem reg ?g a2"
    by (rule setitem_last)
  also have "setitem (setitem (setitem reg ?g a2) ?gg b1) ?gg b2
      = setitem (setitem reg ?g a2) ?gg b2"
    by (rule setitem_last)
  finally show ?thesis
    by (simp add: register_types_def)
qed

subsection \<open>What the methods compute and leave behind\<close>

lemma run_read_attr: "run_state (read_attr a) s = (a s, s)"
  by (simp add: read_attr_def)

lemma run_assign: "run_state (assign upd) s = ((), upd s)"
  by (simp add: assign_def State_Monad.update_def)

lemma run_get_col_spec_m: "run_state get_col_spec_m self = (get_col_spec self, self)"
  by (simp add: get_col_spec_m_def get_col_spec_def run_read_attr)

lemma run_column_expression_m:
  "run_state (column_expression_m col) self = (column_expression self col, self)"
  by (simp add: column_expression_m_def column_expression_def)

lemma run_bind_expression_m:
  "run_state (bind_expression_m b) self = (bind_expression self b, self)"
  by (cases "getattr_func (from_text (cls self))")
    (simp_all add: bind_expression_m_def bind_expression_def run_read_attr)

lemma run_process_m: "run_state (process_m val) self = (process self val, self)"
  by (cases val) (simp_all add: process_m_def process_def run_read_attr)

lemma run_Raster_process_m:
  "run_state (Raster_process_m val) self = (Raster_process self val, self)"
  by (cases val) (simp_all add: Raster_process_m_def Raster_process_def)

text \<open>
  \<^verbatim>\<open>__init__\<close> does change the object: run on an object of class \<open>c\<close> it ends,
  when it returns, in the object the constructor call yields, and when
  \<^verbatim>\<open>int(srid)\<close> raises, in an object whose \<^verbatim>\<open>geometry_type\<close> is already
  assigned.
\<close>

lemma run_GISType_init_m:
  "run_state (GISType_init_m ga sa d si m) self =
     (case upper ga of
        Inl e \<Rightarrow> (Inl e, self)
      | Inr g \<Rightarrow>
          (case py_int sa of
             Inl e \<Rightarrow> (Inl e, self\<lparr>geometry_type := g\<rparr>)
           | Inr n \<Rightarrow>
               (Inr (), self\<lparr>geometry_type := g, srid := n, dimension := d,
                          spatial_index := si, management := m\<rparr>)))"
  by (simp add: GISType_init_m_def run_assign split: sum.splits)

lemma GISType_init_m_yields_init:
  "GISType_init (cls self) ga sa d si m = Inr t \<Longrightarrow>
     run_state (GISType_init_m ga sa d si m) self = (Inr (), t)"
  by (auto simp: run_GISType_init_m GISType_init_def split: sum.splits)

lemma GISType_init_m_assigns:
  "snd (run_state (GISType_init_m (PStr ''point'') (PInt 4326) d si m)
          \<lparr>cls = Geometry, geometry_type = ''GEOMETRY'', srid = - 1, dimension = d,
           spatial_index = si, management = m\<rparr>)
     = \<lparr>cls = Geometry, geometry_type = ''POINT'', srid = 4326, dimension = d,
        spatial_index = si, management = m\<rparr>"
  by (simp add: run_GISType_init_m str_upper_def upper_char_def char_of_eq_iff)

section \<open>Properties of the column types\<close>

text \<open>
  C1. The closure returned by \<^verbatim>\<open>result_processor\<close> of a geometry or geography
  type maps \<^verbatim>\<open>None\<close> to \<^verbatim>\<open>None\<close> and any fetched bytes to a \<^verbatim>\<open>WKBElement\<close> that
  holds exactly those bytes and the SRID of the column type, which is the SRID the
  type was constructed with. The closure of a raster type maps \<^verbatim>\<open>None\<close> to
  \<^verbatim>\<open>None\<close> and any fetched bytes to a \<^verbatim>\<open>RasterElement\<close> holding exactly those bytes.
\<close>

theorem result_processor_decodes:
  "result_processor self dialect coltype None = None
   \<and> result_processor self dialect coltype (Some v) = Some \<lparr>wkb_data = v, wkb_srid = srid self\<rparr>
   \<and> map_sum id (\<lambda>t. result_processor t dialect coltype (Some v))
        (GISType_init c (PStr g) (PInt n) d si m) = Inr (Some \<lparr>wkb_data = v, wkb_srid = n\<rparr>)
   \<and> Raster_result_processor r dialect' coltype' None = None
   \<and> Raster_result_processor r dialect' coltype' (Some v) = Some \<lparr>raster_data = v\<rparr>"
  by (simp add: result_processor_def process_def Raster_result_processor_def Raster_process_def
      GISType_init_def)

text \<open>
  C2. \<^verbatim>\<open>bind_expression\<close> wraps every bind value in one function call whose only
  argument is the bind value and whose type is the column type itself. The function
  is \<^verbatim>\<open>ST_GeomFromText\<close> for every object of class \<^verbatim>\<open>Geometry\<close> and
  \<^verbatim>\<open>ST_GeogFromText\<close> for every object of class \<^verbatim>\<open>Geography\<close>, whatever the bind
  value and the other attributes are.
\<close>

theorem bind_expression_from_text:
  "bind_expression (self\<lparr>cls := Geometry\<rparr>) b =
      Inr (Function ''ST_GeomFromText'' [b] (Some (self\<lparr>cls := Geometry\<rparr>)))
   \<and> bind_expression (self\<lparr>cls := Geography\<rparr>) b =
      Inr (Function ''ST_GeogFromText'' [b] (Some (self\<lparr>cls := Geography\<rparr>)))"
  by (simp add: bind_expression_def func_def)

text \<open>
  C3. \<^verbatim>\<open>column_expression\<close> returns, for every column type and every expression
  it is given as the column, whatever that expression is built from, exactly the call
  of \<^verbatim>\<open>ST_AsBinary\<close> on that one argument, typed with the same column type.
\<close>

theorem column_expression_as_binary:
  "column_expression self col = Function ''ST_AsBinary'' [col] (Some self)"
  by (simp add: column_expression_def func_def)

text \<open>
  C4. \<^verbatim>\<open>get_col_spec\<close> of a geometry or geography type is the type name, an opening
  parenthesis, the stored geometry type, a comma, the stored SRID in decimal and a
  closing parenthesis; the decimal text reads back as the SRID. For a type constructed
  from the kind \<open>g\<close> and the integer \<open>n\<close> the stored values are the upper-cased \<open>g\<close>
  and \<open>n\<close>. \<^verbatim>\<open>Geometry(geometry_type='POINT', srid=4326)\<close> gives
  \<^verbatim>\<open>geometry(POINT,4326)\<close> and \<^verbatim>\<open>Geography(geometry_type='LINESTRING')\<close> gives
  \<^verbatim>\<open>geography(LINESTRING,-1)\<close>.
\<close>

theorem get_col_spec_format:
  "get_col_spec (self\<lparr>cls := Geometry\<rparr>) =
      ''geometry('' @ geometry_type self @ '','' @ fmt_d (srid self) @ '')''
   \<and> get_col_spec (self\<lparr>cls := Geography\<rparr>) =
      ''geography('' @ geometry_type self @ '','' @ fmt_d (srid self) @ '')''
   \<and> int_of_str (fmt_d (srid self)) = Inr (srid self)
   \<and> map_sum id get_col_spec (GISType_init Geometry (PStr g) (PInt n) d si m) =
      Inr (''geometry('' @ str_upper g @ '','' @ fmt_d n @ '')'')
   \<and> map_sum id get_col_spec (GISType_init Geography (PStr g) (PInt n) d si m) =
      Inr (''geography('' @ str_upper g @ '','' @ fmt_d n @ '')'')
   \<and> map_sum id get_col_spec
        (GISType_call Geometry (Some (PStr ''POINT'')) (Some (PInt 4326)) None None None) =
      Inr ''geometry(POINT,4326)''
   \<and> map_sum id get_col_spec
        (GISType_call Geography (Some (PStr ''LINESTRING'')) None None None None) =
      Inr ''geography(LINESTRING,-1)''"
proof -
  have a: "fmt_d 4326 = ''4326''" "fmt_d (- 1) = ''-1''"
    by (simp_all add: fmt_d_def str_of_nat.simps digit_char_def char_of_eq_iff)
  have b: "str_upper ''POINT'' = ''POINT''" "str_upper ''LINESTRING'' = ''LINESTRING''"
    by (simp_all add: str_upper_def upper_char_def)
  show ?thesis
    by (simp add: GISType_call_def GISType_init_def get_col_spec_def int_of_str_fmt_d a b)
qed

text \<open>
  C5. When \<^verbatim>\<open>int\<close> rejects the SRID argument, the constructor called with a string
  as geometry type raises the exception of \<^verbatim>\<open>int\<close> and yields no object. For the
  SRID \<^verbatim>\<open>'not-a-number'\<close> that exception is \<^verbatim>\<open>ValueError\<close>, and no choice of the
  other arguments, given or left to their defaults, makes the call return an object.
  The failure is that of the constructor call, the column declaration: the hooks that
  run at query time take an object, and none exists.
\<close>

theorem init_rejects_bad_srid:
  "(py_int s = Inl e \<longrightarrow> GISType_init c (PStr g) s d si m = Inl e)
   \<and> py_int (PStr ''not-a-number'') = Inl ValueError
   \<and> GISType_init c (PStr g) (PStr ''not-a-number'') d si m = Inl ValueError
   \<and> GISType_call c g' (Some (PStr ''not-a-number'')) d' si' m' \<noteq> Inr t"
proof -
  have a: "int_of_str ''not-a-number'' = Inl ValueError"
    by (simp add: int_of_str_def strip_def is_space_def is_digit_def)
  show ?thesis
    by (auto simp add: GISType_init_def GISType_call_def a split: sum.splits)
qed

theorem init_rejects_bad_srid_witness:
  "py_int PNone = Inl TypeError
   \<and> GISType_init Geometry (PStr ''POINT'') PNone (PInt 2) (PBool True) (PBool False)
       = Inl TypeError"
  using init_rejects_bad_srid
    [of PNone TypeError Geometry "''POINT''" "PInt 2" "PBool True" "PBool False"]
  by simp

text \<open>
  C6. \<^verbatim>\<open>get_col_spec\<close> of a raster type is \<^verbatim>\<open>raster\<close>, whatever the spatial index
  argument was. The class \<^verbatim>\<open>Raster\<close> defines \<^verbatim>\<open>get_col_spec\<close> and
  \<^verbatim>\<open>result_processor\<close> and neither \<^verbatim>\<open>bind_expression\<close> nor
  \<^verbatim>\<open>column_expression\<close>, which \<^verbatim>\<open>Geometry\<close> and \<^verbatim>\<open>Geography\<close> get from
  \<^verbatim>\<open>_GISType\<close>; fetched bytes reach the \<^verbatim>\<open>RasterElement\<close> unchanged.
\<close>

theorem raster_col_spec_and_hooks:
  "Raster_get_col_spec (Raster_call si) = ''raster''
   \<and> Raster_get_col_spec r = ''raster''
   \<and> defining_class Raster M_bind_expression = None
   \<and> defining_class Raster M_column_expression = None
   \<and> defining_class Raster M_get_col_spec = Some Raster
   \<and> defining_class Raster M_result_processor = Some Raster
   \<and> defining_class (GIS Geometry) M_bind_expression = Some (GIS GISType)
   \<and> defining_class (GIS Geography) M_column_expression = Some (GIS GISType)
   \<and> Raster_process r (Some v) = Some \<lparr>raster_data = v\<rparr>"
  by (simp add: Raster_get_col_spec_def defining_class_def Raster_process_def)


text \<open>
  C8. Running the registration a second time on a dictionary gives the dictionary
  that one registration with the classes of the second run gives, and a registration
  repeated with the same classes changes nothing. Afterwards each of the keys
  \<^verbatim>\<open>geometry\<close>, \<^verbatim>\<open>geography\<close> and \<^verbatim>\<open>raster\<close> has exactly one entry, mapped to the
  class of the second run; the keys of the dictionary are those after the first run.
  No step of the registration can raise.
\<close>

theorem register_types_twice:
  assumes "distinct (map fst reg)"
  shows "register_types a2 b2 c2 (register_types a1 b1 c1 reg) = register_types a2 b2 c2 reg
   \<and> register_types a2 b2 c2 (register_types a2 b2 c2 reg) = register_types a2 b2 c2 reg
   \<and> getitem (register_types a2 b2 c2 (register_types a1 b1 c1 reg)) ''geometry'' = Some a2
   \<and> getitem (register_types a2 b2 c2 (register_types a1 b1 c1 reg)) ''geography'' = Some b2
   \<and> getitem (register_types a2 b2 c2 (register_types a1 b1 c1 reg)) ''raster'' = Some c2
   \<and> length (filter (\<lambda>e. fst e = ''geometry'')
        (register_types a2 b2 c2 (register_types a1 b1 c1 reg))) = 1
   \<and> length (filter (\<lambda>e. fst e = ''geography'')
        (register_types a2 b2 c2 (register_types a1 b1 c1 reg))) = 1
   \<and> length (filter (\<lambda>e. fst e = ''raster'')
        (register_types a2 b2 c2 (register_types a1 b1 c1 reg))) = 1
   \<and> distinct (map fst (register_types a2 b2 c2 (register_types a1 b1 c1 reg)))
   \<and> map fst (register_types a2 b2 c2 (register_types a1 b1 c1 reg))
       = map fst (register_types a1 b1 c1 reg)"
proof -
  let ?R = "register_types a2 b2 c2 reg"
  have l: "register_types a2 b2 c2 (register_types a1 b1 c1 reg) = ?R"
    by (rule register_types_last)
  have i: "register_types a2 b2 c2 ?R = ?R"
    by (rule register_types_last)
  have g: "getitem ?R ''geometry'' = Some a2" "getitem ?R ''geography'' = Some b2"
          "getitem ?R ''raster'' = Some c2"
    by (simp_all add: register_types_def getitem_setitem)
  have d1: "distinct (map fst (setitem reg ''geometry'' a2))"
    using assms by (rule distinct_setitem)
  have d2: "distinct (map fst (setitem (setitem reg ''geometry'' a2) ''geography'' b2))"
    using d1 by (rule distinct_setitem)
  have d: "distinct (map fst ?R)"
    unfolding register_types_def using d2 by (rule distinct_setitem)
  have c1: "length (filter (\<lambda>e. fst e = ''geometry'') ?R) = 1"
    using assms by (simp add: register_types_def count_key_setitem_other count_key_setitem)
  have c2: "length (filter (\<lambda>e. fst e = ''geography'') ?R) = 1"
    using d1 by (simp add: register_types_def count_key_setitem_other count_key_setitem)
  have c3: "length (filter (\<lambda>e. fst e = ''raster'') ?R) = 1"
    using d2 by (simp add: register_types_def count_key_setitem)
  have m: "map fst ?R = map fst (register_types a1 b1 c1 reg)"
    unfolding register_types_def
    by (intro keys_setitem_cong) simp
  show ?thesis
    using i g d c1 c2 c3 m unfolding l by simp
qed

theorem register_types_twice_witness:
  "distinct (map fst [(''integer'', 0::nat), (''geometry'', 7)])
   \<and> register_types 4 5 6 (register_types 1 2 3 [(''integer'', 0::nat), (''geometry'', 7)])
       = [(''integer'', 0), (''geometry'', 4), (''geography'', 5), (''raster'', 6)]"
proof -
  have h: "distinct (map fst [(''integer'', 0::nat), (''geometry'', 7)])" by simp
  show ?thesis
    using h register_types_twice [OF h, of 4 5 6 1 2 3]
    by (simp add: register_types_def setitem_def)
qed

text \<open>
  C9. Every call of \<^verbatim>\<open>get_col_spec\<close>, \<^verbatim>\<open>column_expression\<close>,
  \<^verbatim>\<open>bind_expression\<close>, \<^verbatim>\<open>result_processor\<close> or the closure it returns ends in
  the state it started in, returning what the hook computes from that state, and so
  does every sequence of such calls: all attributes of a geometry, geography or raster
  type (\<^verbatim>\<open>geometry_type\<close>, \<^verbatim>\<open>srid\<close>, \<^verbatim>\<open>dimension\<close>, \<^verbatim>\<open>spatial_index\<close>,
  \<^verbatim>\<open>management\<close>; \<^verbatim>\<open>spatial_index\<close> for a raster) keep their values. The
  closure leaves unchanged the object as it is when the closure is called.
\<close>

theorem hooks_leave_descriptor_unchanged:
  "run_state get_col_spec_m self = (get_col_spec self, self)
   \<and> run_state (column_expression_m col) self = (column_expression self col, self)
   \<and> run_state (bind_expression_m b) self = (bind_expression self b, self)
   \<and> snd (run_state (result_processor_m dialect coltype) self) = self
   \<and> run_state (fst (run_state (result_processor_m dialect coltype) self) val) self'
       = (process self' val, self')
   \<and> snd (run_state (gis_exec op) self) = self
   \<and> snd (run_state (gis_run ops) self) = self
   \<and> run_state Raster_get_col_spec_m r = (Raster_get_col_spec r, r)
   \<and> snd (run_state (Raster_result_processor_m dialect' coltype') r) = r
   \<and> run_state (fst (run_state (Raster_result_processor_m dialect' coltype') r) val) r'
       = (Raster_process r' val, r')
   \<and> snd (run_state (raster_exec rop) r) = r
   \<and> snd (run_state (raster_run rops) r) = r"
proof -
  have e: "snd (run_state (gis_exec y) x) = x" for x y
    by (cases y)
      (simp_all add: run_get_col_spec_m run_column_expression_m run_bind_expression_m
        run_process_m result_processor_m_def)
  have f: "snd (run_state (raster_exec y) x) = x" for x y
    by (cases y)
      (simp_all add: run_Raster_process_m Raster_get_col_spec_m_def
        Raster_result_processor_m_def)
  have g: "snd (run_state (gis_run ops) self) = self"
    by (induction ops) (simp_all add: e split_beta)
  have h: "snd (run_state (raster_run rops) r) = r"
    by (induction rops) (simp_all add: f split_beta)
  show ?thesis
    using e [of op self] f [of rop r] g h
    by (simp add: run_get_col_spec_m run_column_expression_m run_bind_expression_m
        run_process_m run_Raster_process_m result_processor_m_def
        Raster_result_processor_m_def Raster_get_col_spec_m_def Raster_get_col_spec_def)
qed

text \<open>
  C10, as stated for every float that is not integral, fails: not-a-number is
  such a float, and \<^verbatim>\<open>int\<close> rejects it with \<^verbatim>\<open>ValueError\<close>, so the constructor
  yields no object.
\<close>

theorem init_nan_srid_fails:
  "GISType_init Geometry (PStr ''POINT'') (PFloat NaN) (PInt 2) (PBool True) (PBool False)
     = Inl ValueError"
  by (simp add: GISType_init_def)

text \<open>
  C10, amended. With a string as geometry type the constructor succeeds exactly
  when \<^verbatim>\<open>int\<close> accepts the SRID argument, and stores the integer \<^verbatim>\<open>int\<close> returns.
  For every finite float that integer is the float truncated toward zero: it has
  the sign of the float, its magnitude is at most that of the float and less than
  one below it. The double nearest to 4326.9 stores 4326, its negative stores -4326,
  and the string \<^verbatim>\<open>'4326'\<close> stores 4326. The floats that are not finite are
  rejected: not-a-number with \<^verbatim>\<open>ValueError\<close>, the two infinities with
  \<^verbatim>\<open>OverflowError\<close>, and the constructor yields no object.
\<close>

theorem init_srid_coercion:
  "GISType_init c (PStr g) s d si m =
      map_sum id (\<lambda>n. \<lparr>cls = c, geometry_type = str_upper g, srid = n, dimension = d,
            spatial_index = si, management = m\<rparr>) (py_int s)
   \<and> py_int (PFloat (Finite q)) = Inr (trunc q)
   \<and> \<bar>of_int (trunc q)\<bar> \<le> \<bar>q\<bar> \<and> \<bar>q\<bar> < \<bar>of_int (trunc q)\<bar> + 1
   \<and> 0 \<le> of_int (trunc q) * q
   \<and> py_int (PFloat (Finite (Fract 2378738431111987 549755813888))) = Inr 4326
   \<and> py_int (PFloat (Finite (Fract (- 2378738431111987) 549755813888))) = Inr (- 4326)
   \<and> py_int (PStr ''4326'') = Inr 4326
   \<and> GISType_init c (PStr g) (PFloat NaN) d si m = Inl ValueError
   \<and> GISType_init c (PStr g) (PFloat PosInf) d si m = Inl OverflowError
   \<and> GISType_init c (PStr g) (PFloat NegInf) d si m = Inl OverflowError"
proof -
  have a: "py_int (PStr ''4326'') = Inr 4326"
    by (simp add: int_of_str_def strip_def is_space_def is_digit_def digit_val_def)
  have b: "py_int (PFloat (Finite (Fract 2378738431111987 549755813888))) = Inr 4326"
          "py_int (PFloat (Finite (Fract (- 2378738431111987) 549755813888))) = Inr (- 4326)"
    by (simp_all add: trunc_def ceiling_def zero_le_Fract_iff)
  have c: "GISType_init c (PStr g) s d si m =
      map_sum id (\<lambda>n. \<lparr>cls = c, geometry_type = str_upper g, srid = n, dimension = d,
            spatial_index = si, management = m\<rparr>) (py_int s)"
    by (simp add: GISType_init_def split: sum.splits)
  have n: "GISType_init c (PStr g) (PFloat NaN) d si m = Inl ValueError"
          "GISType_init c (PStr g) (PFloat PosInf) d si m = Inl OverflowError"
          "GISType_init c (PStr g) (PFloat NegInf) d si m = Inl OverflowError"
    by (simp_all add: GISType_init_def)
  show ?thesis
    using trunc_toward_zero [of q] a b c n by simp
qed

end
